theory Spec2Isabelle
  imports Complex_Main
begin

section \<open>Conventions\<close>

text \<open>
  A Python \<open>str\<close> is a \<open>string\<close>; on ASCII text the two agree character by character.
  A Python \<open>int\<close> is an \<open>int\<close>. A Python \<open>float\<close> is idealised as a \<open>real\<close>: sums and
  quotients are exact. A dictionary whose keys are fixed by the code is a record; where the
  code reads a key with \<open>.get(key, default)\<close> the field is an \<open>option\<close>, \<open>None\<close> standing for
  the missing key. A dictionary that the code fills and iterates is an association list in
  insertion order, as Python keeps it. An exception is the \<open>Inl\<close> of a sum; the state a
  method has mutated before raising is returned beside it.
\<close>

datatype error = CollaboratorError string | KeyError string

section \<open>Python built-ins used by the code\<close>

text \<open>\<open>d.get(k, default)\<close> on a dictionary given as a map.\<close>

definition dict_get :: "('k \<rightharpoonup> 'v) \<Rightarrow> 'k \<Rightarrow> 'v \<Rightarrow> 'v" where
  "dict_get d k dflt = (case d k of None \<Rightarrow> dflt | Some v \<Rightarrow> v)"

text \<open>
  The slice \<open>xs[i:]\<close>: a negative start counts from the end and is clipped at the front, a
  start beyond the end gives the empty list.
\<close>

definition slice_from :: "int \<Rightarrow> 'a list \<Rightarrow> 'a list" where
  "slice_from i xs =
     (let n = int (length xs);
          j = (if i < 0 then max (n + i) 0 else min i n)
      in drop (nat j) xs)"

text \<open>
  \<open>str.strip()\<close>, with the whitespace characters of the ASCII range. Python strips the
  whitespace characters beyond ASCII as well; on text that begins and ends in ASCII the two
  agree.
\<close>

definition is_space :: "char \<Rightarrow> bool" where
  "is_space c =
     (let n = (of_char c :: nat) in n = 32 \<or> (9 \<le> n \<and> n \<le> 13) \<or> (28 \<le> n \<and> n \<le> 31))"

definition strip :: "string \<Rightarrow> string" where
  "strip s = rev (dropWhile is_space (rev (dropWhile is_space s)))"

text \<open>
  \<open>str(n)\<close> for an integer: its decimal digits, with a minus sign when negative. The digit
  table is read below 10 only.
\<close>

definition digit_char :: "nat \<Rightarrow> char" where
  "digit_char d = ''0123456789'' ! d"

fun str_nat :: "nat \<Rightarrow> string" where
  "str_nat n = (if n < 10 then [digit_char n] else str_nat (n div 10) @ [digit_char (n mod 10)])"

declare str_nat.simps [simp del]

definition str_int :: "int \<Rightarrow> string" where
  "str_int i = (if i < 0 then ''-'' @ str_nat (nat (- i)) else str_nat (nat i))"

text \<open>How an f-string renders a value that may be \<open>None\<close>.\<close>

definition str_opt :: "string option \<Rightarrow> string" where
  "str_opt v = (case v of None \<Rightarrow> ''None'' | Some t \<Rightarrow> t)"

text \<open>\<open>d.get(key, default)\<close> on a dictionary given as a record: the field is \<open>None\<close> when the key is missing.\<close>

definition field_get :: "'a option \<Rightarrow> 'a \<Rightarrow> 'a" where
  "field_get v dflt = (case v of None \<Rightarrow> dflt | Some x \<Rightarrow> x)"

text \<open>
  A dictionary that is filled and iterated: an association list in insertion order.
  \<open>d.get(k, default)\<close> and \<open>d[k] = v\<close>; an assignment to a key that is present keeps its place,
  an assignment to a new key comes last.
\<close>

definition items_get :: "('k \<times> 'v) list \<Rightarrow> 'k \<Rightarrow> 'v \<Rightarrow> 'v" where
  "items_get d k dflt = (case map_of d k of None \<Rightarrow> dflt | Some v \<Rightarrow> v)"

fun items_set :: "'k \<Rightarrow> 'v \<Rightarrow> ('k \<times> 'v) list \<Rightarrow> ('k \<times> 'v) list" where
  "items_set k v [] = [(k, v)]"
| "items_set k v (kv # d) = (if fst kv = k then (k, v) # d else kv # items_set k v d)"

text \<open>
  \<open>max(d, key=d.get)\<close> walks the keys in iteration order and keeps the first one whose value
  is the largest: a later key replaces the best one only when its value is strictly larger.
\<close>

fun first_max :: "'k \<times> int \<Rightarrow> ('k \<times> int) list \<Rightarrow> 'k \<times> int" where
  "first_max best [] = best"
| "first_max best (kv # rest) = first_max (if snd best < snd kv then kv else best) rest"








section \<open>Data model (chatbot.py)\<close>

datatype ConversationRole = USER | ASSISTANT | SYSTEM

fun role_value :: "ConversationRole \<Rightarrow> string" where
  "role_value USER = ''user''"
| "role_value ASSISTANT = ''assistant''"
| "role_value SYSTEM = ''system''"

text \<open>
  Modelled from the spec: the class SentimentResult of the module sentiment, which the
  repository imports. The spec gives its five fields; \<open>emotion_intensity\<close> is optional so
  that an absent intensity can be written.
\<close>

record SentimentResult =
  sentiment :: string
  emotion :: string
  emotion_intensity :: "string option"
  confidence :: real
  reasoning :: string

text \<open>The reading of the clock that \<open>datetime.now\<close> returns when a message is created.\<close>

type_synonym timestamp = nat

record Message =
  role :: ConversationRole
  content :: string
  timestamp :: timestamp
  msg_sentiment :: "SentimentResult option"

record ConversationState =
  mood :: string
  engagement_level :: string
  topics_discussed :: "string list"
  sentiment_trend :: string
  last_emotion :: string

definition ConversationState_init :: ConversationState where
  "ConversationState_init =
     \<lparr>mood = ''neutral'', engagement_level = ''normal'', topics_discussed = [],
      sentiment_trend = ''stable'', last_emotion = ''neutral''\<rparr>"

definition ConversationState_update :: "SentimentResult \<Rightarrow> ConversationState \<Rightarrow> ConversationState" where
  "ConversationState_update sentiment_result st =
     (let st1 = st\<lparr>mood := sentiment sentiment_result\<rparr>;
          st2 = st1\<lparr>last_emotion := emotion sentiment_result\<rparr>
      in if emotion_intensity sentiment_result = Some ''high'' then st2\<lparr>engagement_level := ''high''\<rparr>
         else if emotion_intensity sentiment_result = Some ''low'' then st2\<lparr>engagement_level := ''low''\<rparr>
         else st2\<lparr>engagement_level := ''normal''\<rparr>)"

text \<open>
  Modelled from the spec: \<open>SentimentResult.to_dict\<close>, the dictionary of the five fields. The
  consumers of this dictionary read it with \<open>.get\<close>, so its fields are optional.
\<close>

record sentiment_dict =
  sd_sentiment :: "string option"
  sd_emotion :: "string option"
  sd_emotion_intensity :: "string option"
  sd_confidence :: "real option"
  sd_reasoning :: "string option"

definition SentimentResult_to_dict :: "SentimentResult \<Rightarrow> sentiment_dict" where
  "SentimentResult_to_dict r =
     \<lparr>sd_sentiment = Some (sentiment r), sd_emotion = Some (emotion r),
      sd_emotion_intensity = emotion_intensity r, sd_confidence = Some (confidence r),
      sd_reasoning = Some (reasoning r)\<rparr>"

record message_dict =
  md_role :: string
  md_content :: string
  md_timestamp :: timestamp
  md_sentiment :: "sentiment_dict option"

definition Message_to_dict :: "Message \<Rightarrow> message_dict" where
  "Message_to_dict m =
     \<lparr>md_role = role_value (role m), md_content = content m, md_timestamp = timestamp m,
      md_sentiment = (case msg_sentiment m of Some r \<Rightarrow> Some (SentimentResult_to_dict r)
                                               | None \<Rightarrow> None)\<rparr>"

section \<open>The collaborator\<close>

text \<open>The dictionaries the AI client returns; any key may be missing.\<close>

record trend_dict =
  td_trend :: "string option"
  td_direction :: "string option"
  td_mood_shifts :: "string list option"
  td_emotional_peaks :: "string list option"
  td_analysis :: "string option"
  td_prediction :: "string option"

record keywords_dict =
  kd_keywords :: "string list option"
  kd_themes :: "string list option"
  kd_topics_of_interest :: "string list option"

record summary_dict =
  su_summary :: "string option"
  su_overall_tone :: "string option"
  su_user_mood_journey :: "string option"
  su_key_points :: "string list option"

text \<open>
  Modelled from the spec: the class GeminiAIClient of the module ai_client, as the seven
  capabilities of its contract. What the remote service answers is not fixed by the
  repository, so the client is a parameter of every call that reaches it, and each call may
  be given another one. A call that raises returns \<open>Inl\<close>. The classification is the one
  the analyzer ends with: by the spec the analyzer replaces a failed classification by safe
  defaults and never raises.
\<close>

record GeminiAIClient =
  classify_sentiment :: "string \<Rightarrow> SentimentResult"
  generate_reply :: "string \<Rightarrow> (string \<times> string) list \<Rightarrow> string \<Rightarrow> string \<Rightarrow> error + string"
  generate_trend_analysis :: "sentiment_dict list \<Rightarrow> error + trend_dict"
  extract_keywords :: "message_dict list \<Rightarrow> error + keywords_dict"
  summarize_conversation :: "message_dict list \<Rightarrow> error + summary_dict"
  generate_ascii_mood_graph :: "sentiment_dict list \<Rightarrow> error + string"
  generate_emotion_profile :: "sentiment_dict list \<Rightarrow> error + string"

section \<open>SentimentAnalyzer\<close>

text \<open>
  Modelled from the spec: the class SentimentAnalyzer of the module sentiment. It keeps the
  ordered history of the results it has returned.
\<close>

record SentimentAnalyzer =
  results :: "SentimentResult list"

text \<open>
  Modelled from the spec: \<open>SentimentAnalyzer.analyze\<close> classifies the text through the
  collaborator and appends the result to the history before returning it.
\<close>

definition analyze :: "GeminiAIClient \<Rightarrow> string \<Rightarrow> SentimentAnalyzer \<Rightarrow> SentimentResult \<times> SentimentAnalyzer" where
  "analyze ai text sa =
     (let r = classify_sentiment ai text in (r, sa\<lparr>results := results sa @ [r]\<rparr>))"

text \<open>
  Modelled from the spec: \<open>SentimentAnalyzer.get_summary_stats\<close> returns aggregates over the
  history; the spec fixes \<open>total_messages\<close> only.
\<close>

record summary_stats =
  total_messages :: int

definition get_summary_stats :: "SentimentAnalyzer \<Rightarrow> summary_stats" where
  "get_summary_stats sa = \<lparr>total_messages = int (length (results sa))\<rparr>"

text \<open>Modelled from the spec: \<open>SentimentAnalyzer.clear_history\<close> empties the sequence.\<close>

definition clear_history :: "SentimentAnalyzer \<Rightarrow> SentimentAnalyzer" where
  "clear_history sa = sa\<lparr>results := []\<rparr>"

text \<open>Modelled from the spec: \<open>SentimentAnalyzer.get_history_dicts\<close>, the history as dictionaries.\<close>

definition get_history_dicts :: "SentimentAnalyzer \<Rightarrow> sentiment_dict list" where
  "get_history_dicts sa = map SentimentResult_to_dict (results sa)"

section \<open>Chatbot\<close>

record Chatbot =
  sentiment_analyzer :: SentimentAnalyzer
  history :: "Message list"
  state :: ConversationState
  system_prompt :: string

definition default_system_prompt :: string where
  "default_system_prompt =
     ''You are a friendly, intelligent AI assistant. '' @
     ''You are empathetic, helpful, and adapt your communication style '' @
     ''based on the user'' @ [CHR 0x27] @ ''s emotional state.''"

definition add_system_message :: "string \<Rightarrow> timestamp \<Rightarrow> 'a Chatbot_scheme \<Rightarrow> 'a Chatbot_scheme" where
  "add_system_message text now s =
     s\<lparr>history := history s @
          [\<lparr>role = SYSTEM, content = text, timestamp = now, msg_sentiment = None\<rparr>]\<rparr>"

definition add_message ::
  "ConversationRole \<Rightarrow> string \<Rightarrow> SentimentResult option \<Rightarrow> timestamp \<Rightarrow> 'a Chatbot_scheme \<Rightarrow> 'a Chatbot_scheme" where
  "add_message r text sent now s =
     s\<lparr>history := history s @
          [\<lparr>role = r, content = text, timestamp = now, msg_sentiment = sent\<rparr>]\<rparr>"

text \<open>
  The constructor. \<open>system_prompt or default\<close> takes the default for \<open>None\<close> and for the
  empty string alike.
\<close>

definition Chatbot_init :: "string option \<Rightarrow> timestamp \<Rightarrow> Chatbot" where
  "Chatbot_init prompt now =
     (let p = (case prompt of None \<Rightarrow> default_system_prompt
                | Some t \<Rightarrow> if t = [] then default_system_prompt else t)
      in add_system_message p now
           \<lparr>sentiment_analyzer = \<lparr>results = []\<rparr>, history = [],
            state = ConversationState_init, system_prompt = p\<rparr>)"

definition generate_response ::
  "GeminiAIClient \<Rightarrow> string \<Rightarrow> SentimentResult \<Rightarrow> 'a Chatbot_scheme \<Rightarrow> error + string" where
  "generate_response ai user_message sent s =
     (let history_for_ai =
            map (\<lambda>msg. (role_value (role msg), content msg)) (slice_from (- 10) (history s));
          sentiment_context =
            ''User sentiment: '' @ sentiment sent @ '' | '' @
            ''Emotion: '' @ emotion sent @ '' ('' @ str_opt (emotion_intensity sent) @ '') | '' @
            ''Reason: '' @ reasoning sent
      in case generate_reply ai user_message history_for_ai (mood (state s)) sentiment_context of
           Inl e \<Rightarrow> Inl e
         | Inr response \<Rightarrow> Inr (strip response))"

definition get_mood_context :: "'a Chatbot_scheme \<Rightarrow> string" where
  "get_mood_context s =
     (let stats = get_summary_stats (sentiment_analyzer s)
      in ''Current mood: '' @ mood (state s) @ '' | '' @
         ''Emotion: '' @ last_emotion (state s) @ '' | '' @
         ''Engagement: '' @ engagement_level (state s) @ '' | '' @
         ''Messages: '' @ str_int (total_messages stats))"

record chat_result =
  response :: string
  res_sentiment :: sentiment_dict
  res_state :: ConversationState
  mood_context :: string

text \<open>
  One turn. The two clock readings are those of the user message and of the assistant
  message. When reply generation raises, the exception leaves \<open>chat\<close> with the state as
  steps 1 to 3 have made it.
\<close>

definition chat ::
  "GeminiAIClient \<Rightarrow> timestamp \<Rightarrow> timestamp \<Rightarrow> string \<Rightarrow> 'a Chatbot_scheme
     \<Rightarrow> (error + chat_result) \<times> 'a Chatbot_scheme" where
  "chat ai now_user now_reply user_message s =
     (let (sentiment_result, sa) = analyze ai user_message (sentiment_analyzer s);
          s1 = s\<lparr>sentiment_analyzer := sa\<rparr>;
          s2 = s1\<lparr>state := ConversationState_update sentiment_result (state s1)\<rparr>;
          s3 = add_message USER user_message (Some sentiment_result) now_user s2
      in case generate_response ai user_message sentiment_result s3 of
           Inl e \<Rightarrow> (Inl e, s3)
         | Inr reply \<Rightarrow>
             (let s4 = add_message ASSISTANT reply None now_reply s3
              in (Inr \<lparr>response = reply,
                       res_sentiment = SentimentResult_to_dict sentiment_result,
                       res_state = state s4,
                       mood_context = get_mood_context s4\<rparr>, s4)))"

definition get_history :: "'a Chatbot_scheme \<Rightarrow> message_dict list" where
  "get_history s = map Message_to_dict (history s)"

definition get_user_messages :: "'a Chatbot_scheme \<Rightarrow> string list" where
  "get_user_messages s = map content (filter (\<lambda>msg. role msg = USER) (history s))"

definition get_sentiment_history :: "'a Chatbot_scheme \<Rightarrow> sentiment_dict list" where
  "get_sentiment_history s = get_history_dicts (sentiment_analyzer s)"

record chatbot_statistics =
  cs_total_messages :: int
  cs_user_messages :: int
  cs_assistant_messages :: int
  cs_sentiment_stats :: summary_stats
  cs_conversation_state :: ConversationState

definition get_statistics :: "'a Chatbot_scheme \<Rightarrow> chatbot_statistics" where
  "get_statistics s =
     (let user_msgs = int (length (filter (\<lambda>m. role m = USER) (history s)));
          assistant_msgs = int (length (filter (\<lambda>m. role m = ASSISTANT) (history s)))
      in \<lparr>cs_total_messages = int (length (history s)) - 1,
          cs_user_messages = user_msgs,
          cs_assistant_messages = assistant_msgs,
          cs_sentiment_stats = get_summary_stats (sentiment_analyzer s),
          cs_conversation_state = state s\<rparr>)"

definition reset :: "timestamp \<Rightarrow> 'a Chatbot_scheme \<Rightarrow> 'a Chatbot_scheme" where
  "reset now s =
     (let s1 = s\<lparr>history := []\<rparr>;
          s2 = s1\<lparr>state := ConversationState_init\<rparr>;
          s3 = s2\<lparr>sentiment_analyzer := clear_history (sentiment_analyzer s2)\<rparr>
      in add_system_message (system_prompt s3) now s3)"

definition set_personality :: "string \<Rightarrow> timestamp \<Rightarrow> 'a Chatbot_scheme \<Rightarrow> 'a Chatbot_scheme" where
  "set_personality personality now s =
     (let s1 = s\<lparr>system_prompt := personality\<rparr>
      in if history s1 \<noteq> [] \<and> role (history s1 ! 0) = SYSTEM
         then s1\<lparr>history := (history s1)
                   [0 := \<lparr>role = SYSTEM, content = personality, timestamp = now,
                          msg_sentiment = None\<rparr>]\<rparr>
         else s1)"

section \<open>SmartChatbot\<close>

text \<open>
  SmartChatbot extends Chatbot by two fields. The methods of Chatbot are defined on the
  record scheme, so that a SmartChatbot inherits them and they leave its own fields alone.
\<close>

record SmartChatbot = Chatbot +
  mood_shift_threshold :: int
  previous_moods :: "string list"

definition SmartChatbot_init :: "timestamp \<Rightarrow> SmartChatbot" where
  "SmartChatbot_init now =
     (let base = Chatbot_init None now
      in \<lparr>sentiment_analyzer = sentiment_analyzer base, history = history base,
          state = state base, system_prompt = system_prompt base,
          mood_shift_threshold = 2, previous_moods = []\<rparr>)"

subsection \<open>Mood-shift detection\<close>

record mood_shift =
  ms_direction :: string
  ms_from :: string
  ms_to :: string

definition mood_values :: "string \<rightharpoonup> int" where
  "mood_values = [''positive'' \<mapsto> 1, ''neutral'' \<mapsto> 0, ''negative'' \<mapsto> - 1]"

definition detect_mood_shift :: "'a SmartChatbot_scheme \<Rightarrow> mood_shift option" where
  "detect_mood_shift s =
     (if int (length (previous_moods s)) < mood_shift_threshold s then None
      else
        let recent = slice_from (- mood_shift_threshold s) (previous_moods s) in
        if card (set recent) = 1 then None
        else if length recent \<ge> 2 then
          (let prev_val = dict_get mood_values (recent ! (length recent - 2)) 0;
               curr_val = dict_get mood_values (recent ! (length recent - 1)) 0
           in if curr_val > prev_val then
                Some \<lparr>ms_direction = ''improving'', ms_from = recent ! (length recent - 2),
                      ms_to = recent ! (length recent - 1)\<rparr>
              else if curr_val < prev_val then
                Some \<lparr>ms_direction = ''declining'', ms_from = recent ! (length recent - 2),
                      ms_to = recent ! (length recent - 1)\<rparr>
              else None)
        else None)"

record smart_chat_result = chat_result +
  mood_shift_detected :: "mood_shift option"

text \<open>
  The enhanced turn. The entry \<open>ui_hints\<close> of the result, a table lookup on the sentiment
  dictionary that reads and writes no state, is not part of the result record.
\<close>

definition SmartChatbot_chat ::
  "GeminiAIClient \<Rightarrow> timestamp \<Rightarrow> timestamp \<Rightarrow> string \<Rightarrow> 'a SmartChatbot_scheme
     \<Rightarrow> (error + smart_chat_result) \<times> 'a SmartChatbot_scheme" where
  "SmartChatbot_chat ai now_user now_reply user_message s =
     (case chat ai now_user now_reply user_message s of
        (Inl e, s1) \<Rightarrow> (Inl e, s1)
      | (Inr result, s1) \<Rightarrow>
          (case sd_sentiment (res_sentiment result) of
             None \<Rightarrow> (Inl (KeyError ''sentiment''), s1)
           | Some label \<Rightarrow>
               (let s2 = s1\<lparr>previous_moods := previous_moods s1 @ [label]\<rparr>;
                    mood_shift = detect_mood_shift s2
                in (Inr \<lparr>response = response result, res_sentiment = res_sentiment result,
                         res_state = res_state result, mood_context = mood_context result,
                         mood_shift_detected = mood_shift\<rparr>, s2))))"

section \<open>Analytics (analytics.py)\<close>

record TrendData =
  trend :: string
  direction :: string
  mood_shifts :: "string list"
  emotional_peaks :: "string list"
  analysis :: string
  prediction :: string

definition TrendData_to_dict :: "TrendData \<Rightarrow> trend_dict" where
  "TrendData_to_dict t =
     \<lparr>td_trend = Some (trend t), td_direction = Some (direction t),
      td_mood_shifts = Some (mood_shifts t), td_emotional_peaks = Some (emotional_peaks t),
      td_analysis = Some (analysis t), td_prediction = Some (prediction t)\<rparr>"

definition analyze_trends :: "GeminiAIClient \<Rightarrow> sentiment_dict list \<Rightarrow> error + TrendData" where
  "analyze_trends ai sentiment_history =
     (case generate_trend_analysis ai sentiment_history of
        Inl e \<Rightarrow> Inl e
      | Inr result \<Rightarrow>
          Inr \<lparr>trend = field_get (td_trend result) ''stable'',
               direction = field_get (td_direction result) ''neutral'',
               mood_shifts = field_get (td_mood_shifts result) [],
               emotional_peaks = field_get (td_emotional_peaks result) [],
               analysis = field_get (td_analysis result) ''No analysis available.'',
               prediction = field_get (td_prediction result) ''Unable to predict.''\<rparr>)"

record statistics_dict =
  st_total_messages :: "int option"
  st_sentiment_distribution :: "(string \<times> int) list option"
  st_emotion_distribution :: "(string \<times> int) list option"
  st_average_confidence :: "real option"
  st_dominant_sentiment :: "string option"
  st_dominant_emotion :: "string option"

text \<open>The loop of \<open>_calculate_statistics\<close>, with its three accumulators.\<close>

fun tally ::
  "sentiment_dict list \<Rightarrow> (string \<times> int) list \<Rightarrow> (string \<times> int) list \<Rightarrow> real
     \<Rightarrow> (string \<times> int) list \<times> (string \<times> int) list \<times> real" where
  "tally [] sentiment_dist emotion_dist total_confidence =
     (sentiment_dist, emotion_dist, total_confidence)"
| "tally (item # rest) sentiment_dist emotion_dist total_confidence =
     (let s_label = field_get (sd_sentiment item) ''neutral'';
          sentiment_dist1 = items_set s_label (items_get sentiment_dist s_label 0 + 1) sentiment_dist;
          e_label = field_get (sd_emotion item) ''neutral'';
          emotion_dist1 = items_set e_label (items_get emotion_dist e_label 0 + 1) emotion_dist;
          total_confidence1 = total_confidence + field_get (sd_confidence item) (1 / 2)
      in tally rest sentiment_dist1 emotion_dist1 total_confidence1)"

text \<open>\<open>max(counts, key=counts.get) if counts else "neutral"\<close>.\<close>

definition dominant :: "(string \<times> int) list \<Rightarrow> string" where
  "dominant counts = (case counts of [] \<Rightarrow> ''neutral'' | kv # rest \<Rightarrow> fst (first_max kv rest))"

text \<open>
  For the empty history the dictionary returned has four keys only: the two dominant
  labels are missing.
\<close>

definition calculate_statistics :: "sentiment_dict list \<Rightarrow> statistics_dict" where
  "calculate_statistics sentiment_history =
     (if sentiment_history = [] then
        \<lparr>st_total_messages = Some 0, st_sentiment_distribution = Some [],
         st_emotion_distribution = Some [], st_average_confidence = Some 0,
         st_dominant_sentiment = None, st_dominant_emotion = None\<rparr>
      else
        (let (sentiment_dist, emotion_dist, total_confidence) = tally sentiment_history [] [] 0
         in \<lparr>st_total_messages = Some (int (length sentiment_history)),
             st_sentiment_distribution = Some sentiment_dist,
             st_emotion_distribution = Some emotion_dist,
             st_average_confidence = Some (total_confidence / real (length sentiment_history)),
             st_dominant_sentiment = Some (dominant sentiment_dist),
             st_dominant_emotion = Some (dominant emotion_dist)\<rparr>))"

record report_dict =
  r_summary :: "summary_dict option"
  r_trends :: "trend_dict option"
  r_keywords :: "keywords_dict option"
  r_statistics :: "statistics_dict option"
  r_mood_graph :: "string option"
  r_emotion_profile :: "string option"

text \<open>The five delegated calls in the order of the source; the first one that raises ends the call.\<close>

definition get_full_report ::
  "GeminiAIClient \<Rightarrow> message_dict list \<Rightarrow> sentiment_dict list \<Rightarrow> error + report_dict" where
  "get_full_report ai conversation_history sentiment_history =
     (case analyze_trends ai sentiment_history of
        Inl e \<Rightarrow> Inl e
      | Inr trends \<Rightarrow>
     (case extract_keywords ai conversation_history of
        Inl e \<Rightarrow> Inl e
      | Inr keywords \<Rightarrow>
     (case summarize_conversation ai conversation_history of
        Inl e \<Rightarrow> Inl e
      | Inr summary \<Rightarrow>
     (case generate_ascii_mood_graph ai sentiment_history of
        Inl e \<Rightarrow> Inl e
      | Inr mood_graph \<Rightarrow>
     (case generate_emotion_profile ai sentiment_history of
        Inl e \<Rightarrow> Inl e
      | Inr emotion_profile \<Rightarrow>
          (let stats = calculate_statistics sentiment_history
           in Inr \<lparr>r_summary = Some summary, r_trends = Some (TrendData_to_dict trends),
                   r_keywords = Some keywords, r_statistics = Some stats,
                   r_mood_graph = Some mood_graph,
                   r_emotion_profile = Some emotion_profile\<rparr>))))))"

section \<open>ReportGenerator\<close>













definition generate_json_report ::
  "GeminiAIClient \<Rightarrow> message_dict list \<Rightarrow> sentiment_dict list \<Rightarrow> error + report_dict" where
  "generate_json_report ai conversation_history sentiment_history =
     get_full_report ai conversation_history sentiment_history"

section \<open>The frequency map of the specification\<close>

text \<open>
  The spec describes the two distributions as frequency maps over the labels. Written
  from its words: every label that occurs, in the order of first occurrence, with the
  number of its occurrences.
\<close>

definition first_occurrences :: "'a list \<Rightarrow> 'a list" where
  "first_occurrences xs = rev (remdups (rev xs))"

definition spec_frequency_map :: "string list \<Rightarrow> (string \<times> int) list" where
  "spec_frequency_map labels =
     map (\<lambda>l. (l, int (count_list labels l))) (first_occurrences labels)"

section \<open>Sequences of calls\<close>

text \<open>
  A caller drives an agent by a sequence of calls. The client and the clock readings of a
  turn belong to the call. A turn that raises ends the run, with the state the turn has left.
\<close>

datatype call =
  Chat GeminiAIClient timestamp timestamp string
| Reset timestamp
| SetPersonality string timestamp

fun run :: "call list \<Rightarrow> 'a Chatbot_scheme \<Rightarrow> error option \<times> 'a Chatbot_scheme" where
  "run [] s = (None, s)"
| "run (Chat ai now_user now_reply user_message # cs) s =
     (case chat ai now_user now_reply user_message s of
        (Inl e, s1) \<Rightarrow> (Some e, s1)
      | (Inr result, s1) \<Rightarrow> run cs s1)"
| "run (Reset now # cs) s = run cs (reset now s)"
| "run (SetPersonality personality now # cs) s = run cs (set_personality personality now s)"

fun smart_run :: "call list \<Rightarrow> 'a SmartChatbot_scheme \<Rightarrow> error option \<times> 'a SmartChatbot_scheme" where
  "smart_run [] s = (None, s)"
| "smart_run (Chat ai now_user now_reply user_message # cs) s =
     (case SmartChatbot_chat ai now_user now_reply user_message s of
        (Inl e, s1) \<Rightarrow> (Some e, s1)
      | (Inr result, s1) \<Rightarrow> smart_run cs s1)"
| "smart_run (Reset now # cs) s = smart_run cs (reset now s)"
| "smart_run (SetPersonality personality now # cs) s =
     smart_run cs (set_personality personality now s)"

text \<open>The number of turns since the construction or the last reset, counted from \<open>n\<close>.\<close>

fun turns_from :: "nat \<Rightarrow> call list \<Rightarrow> nat" where
  "turns_from n [] = n"
| "turns_from n (Chat ai now_user now_reply user_message # cs) = turns_from (Suc n) cs"
| "turns_from n (Reset now # cs) = turns_from 0 cs"
| "turns_from n (SetPersonality personality now # cs) = turns_from n cs"

section \<open>Concrete inputs\<close>

definition tracked :: "string list \<Rightarrow> SmartChatbot" where
  "tracked moods = (SmartChatbot_init 0)\<lparr>previous_moods := moods\<rparr>"

definition happy_result :: SentimentResult where
  "happy_result =
     \<lparr>sentiment = ''positive'', emotion = ''happy'', emotion_intensity = Some ''high'',
      confidence = 9 / 10, reasoning = ''thanks''\<rparr>"

definition steady_client :: GeminiAIClient where
  "steady_client =
     \<lparr>classify_sentiment = (\<lambda>text. happy_result),
      generate_reply = (\<lambda>user_message conversation_history current_mood sentiment_context.
         Inr '' Glad to hear it. ''),
      generate_trend_analysis = (\<lambda>h. Inl (CollaboratorError ''unavailable'')),
      extract_keywords = (\<lambda>h. Inl (CollaboratorError ''unavailable'')),
      summarize_conversation = (\<lambda>h. Inl (CollaboratorError ''unavailable'')),
      generate_ascii_mood_graph = (\<lambda>h. Inl (CollaboratorError ''unavailable'')),
      generate_emotion_profile = (\<lambda>h. Inl (CollaboratorError ''unavailable''))\<rparr>"

definition failing_client :: GeminiAIClient where
  "failing_client =
     steady_client\<lparr>generate_reply :=
       (\<lambda>user_message conversation_history current_mood sentiment_context.
          Inl (CollaboratorError ''unavailable''))\<rparr>"

definition three_turns :: "call list" where
  "three_turns =
     [Chat steady_client 1 2 ''hi'', Reset 3, Chat steady_client 4 5 ''hello'',
      SetPersonality ''Be brief.'' 6, Chat steady_client 7 8 ''bye'']"

definition briefed :: Chatbot where
  "briefed = snd (chat steady_client 2 3 ''hi'' (set_personality ''Be brief.'' 1 (Chatbot_init None 0)))"

definition sample_history :: "sentiment_dict list" where
  "sample_history =
     [\<lparr>sd_sentiment = Some ''positive'', sd_emotion = Some ''happy'',
       sd_emotion_intensity = None, sd_confidence = Some (9 / 10), sd_reasoning = None\<rparr>,
      \<lparr>sd_sentiment = Some ''positive'', sd_emotion = Some ''happy'',
       sd_emotion_intensity = None, sd_confidence = Some (7 / 10), sd_reasoning = None\<rparr>,
      \<lparr>sd_sentiment = Some ''negative'', sd_emotion = Some ''sad'',
       sd_emotion_intensity = None, sd_confidence = Some (5 / 10), sd_reasoning = None\<rparr>]"



definition emptied :: Chatbot where
  "emptied = set_personality [] 1 (Chatbot_init None 0)"


section \<open>Mood-shift detection\<close>

lemma slice_from_last2: "slice_from (- 2) (ys @ [a, b]) = [a, b]"
  by (simp add: slice_from_def Let_def)

lemma card_pair_one: "card (set [a, b]) = 1 \<longleftrightarrow> a = b"
  by (auto simp: card_insert_if)

lemma detect_two_last:
  assumes "mood_shift_threshold s = 2" and "previous_moods s = ys @ [a, b]"
  shows "detect_mood_shift s =
     (if a = b then None
      else if dict_get mood_values a 0 < dict_get mood_values b 0
        then Some \<lparr>ms_direction = ''improving'', ms_from = a, ms_to = b\<rparr>
      else if dict_get mood_values b 0 < dict_get mood_values a 0
        then Some \<lparr>ms_direction = ''declining'', ms_from = a, ms_to = b\<rparr>
      else None)"
  using assms
  by (simp add: detect_mood_shift_def slice_from_last2 card_pair_one Let_def nth_append)

lemma detect_short:
  assumes "mood_shift_threshold s = 2" and "length (previous_moods s) < 2"
  shows "detect_mood_shift s = None"
  using assms by (simp add: detect_mood_shift_def)

lemma mood_values_table:
  "dict_get mood_values ''positive'' 0 = 1"
  "dict_get mood_values ''neutral'' 0 = 0"
  "dict_get mood_values ''negative'' 0 = - 1"
  by (simp_all add: dict_get_def mood_values_def)

text \<open>
  C1. With the window of 2, \<open>_detect_mood_shift\<close> reports no shift when fewer than two labels
  are recorded. Otherwise, for the second-to-last label \<open>a\<close> and the last label \<open>b\<close>: no
  shift when they are equal; improving from \<open>a\<close> to \<open>b\<close> when the ordinal of \<open>b\<close> is strictly
  larger; declining from \<open>a\<close> to \<open>b\<close> when it is strictly smaller; no shift in the remaining
  case. The ordinals are positive 1, neutral 0, negative -1. In particular
  [positive, positive] gives no shift, [negative, positive] gives improving and
  [positive, negative] gives declining.
\<close>

theorem detect_mood_shift_window2:
  assumes "mood_shift_threshold s = 2"
  shows "(length (previous_moods s) < 2 \<longrightarrow> detect_mood_shift s = None)
    \<and> (\<forall>ys a b. previous_moods s = ys @ [a, b] \<longrightarrow>
          detect_mood_shift s =
            (if a = b then None
             else if dict_get mood_values a 0 < dict_get mood_values b 0
               then Some \<lparr>ms_direction = ''improving'', ms_from = a, ms_to = b\<rparr>
             else if dict_get mood_values b 0 < dict_get mood_values a 0
               then Some \<lparr>ms_direction = ''declining'', ms_from = a, ms_to = b\<rparr>
             else None))
    \<and> dict_get mood_values ''positive'' 0 = 1
    \<and> dict_get mood_values ''neutral'' 0 = 0
    \<and> dict_get mood_values ''negative'' 0 = - 1
    \<and> (previous_moods s = [''positive'', ''positive''] \<longrightarrow> detect_mood_shift s = None)
    \<and> (previous_moods s = [''negative'', ''positive''] \<longrightarrow>
          detect_mood_shift s =
            Some \<lparr>ms_direction = ''improving'', ms_from = ''negative'', ms_to = ''positive''\<rparr>)
    \<and> (previous_moods s = [''positive'', ''negative''] \<longrightarrow>
          detect_mood_shift s =
            Some \<lparr>ms_direction = ''declining'', ms_from = ''positive'', ms_to = ''negative''\<rparr>)"
proof -
  have short: "length (previous_moods s) < 2 \<longrightarrow> detect_mood_shift s = None"
    using assms detect_short by blast
  have general: "\<forall>ys a b. previous_moods s = ys @ [a, b] \<longrightarrow>
          detect_mood_shift s =
            (if a = b then None
             else if dict_get mood_values a 0 < dict_get mood_values b 0
               then Some \<lparr>ms_direction = ''improving'', ms_from = a, ms_to = b\<rparr>
             else if dict_get mood_values b 0 < dict_get mood_values a 0
               then Some \<lparr>ms_direction = ''declining'', ms_from = a, ms_to = b\<rparr>
             else None)"
    using assms detect_two_last by blast
  have same: "previous_moods s = [''positive'', ''positive''] \<longrightarrow> detect_mood_shift s = None"
    using detect_two_last [OF assms, of "[]" "''positive''" "''positive''"] by simp
  have up: "previous_moods s = [''negative'', ''positive''] \<longrightarrow>
          detect_mood_shift s =
            Some \<lparr>ms_direction = ''improving'', ms_from = ''negative'', ms_to = ''positive''\<rparr>"
    using detect_two_last [OF assms, of "[]" "''negative''" "''positive''"]
    by (simp add: mood_values_table)
  have down: "previous_moods s = [''positive'', ''negative''] \<longrightarrow>
          detect_mood_shift s =
            Some \<lparr>ms_direction = ''declining'', ms_from = ''positive'', ms_to = ''negative''\<rparr>"
    using detect_two_last [OF assms, of "[]" "''positive''" "''negative''"]
    by (simp add: mood_values_table)
  from short general same up down show ?thesis
    by (simp only: mood_values_table simp_thms)
qed

theorem detect_mood_shift_window2_witness:
  "mood_shift_threshold (tracked [''neutral'', ''negative'', ''positive'']) = 2
   \<and> previous_moods (tracked [''neutral'', ''negative'', ''positive'']) =
        [''neutral''] @ [''negative'', ''positive'']
   \<and> detect_mood_shift (tracked [''neutral'', ''negative'', ''positive'']) =
        Some \<lparr>ms_direction = ''improving'', ms_from = ''negative'', ms_to = ''positive''\<rparr>"
proof -
  let ?s = "tracked [''neutral'', ''negative'', ''positive'']"
  have thr: "mood_shift_threshold ?s = 2"
    by (simp add: tracked_def SmartChatbot_init_def Let_def)
  have moods: "previous_moods ?s = [''neutral''] @ [''negative'', ''positive'']"
    by (simp add: tracked_def)
  from detect_mood_shift_window2 [OF thr] moods
  have "detect_mood_shift ?s =
      (if ''negative'' = ''positive'' then None
       else if dict_get mood_values ''negative'' 0 < dict_get mood_values ''positive'' 0
         then Some \<lparr>ms_direction = ''improving'', ms_from = ''negative'', ms_to = ''positive''\<rparr>
       else if dict_get mood_values ''positive'' 0 < dict_get mood_values ''negative'' 0
         then Some \<lparr>ms_direction = ''declining'', ms_from = ''negative'', ms_to = ''positive''\<rparr>
       else None)"
    by blast
  then have "detect_mood_shift ?s =
        Some \<lparr>ms_direction = ''improving'', ms_from = ''negative'', ms_to = ''positive''\<rparr>"
    by (simp add: mood_values_table)
  with thr moods show ?thesis by blast
qed

section \<open>ConversationState\<close>

text \<open>
  C3. The engagement level after \<open>update\<close> is given by the emotion intensity of the result
  alone, whatever the state was before: high for high, low for low, normal for every other
  value, medium and an absent intensity among them. The mood becomes the sentiment of the
  result and the last emotion its emotion; the two reserved fields stay as they were.
\<close>

theorem update_engagement_table:
  "engagement_level (ConversationState_update r st) =
     (if emotion_intensity r = Some ''high'' then ''high''
      else if emotion_intensity r = Some ''low'' then ''low''
      else ''normal'')
   \<and> engagement_level (ConversationState_update r st) =
       engagement_level (ConversationState_update r st')
   \<and> mood (ConversationState_update r st) = sentiment r
   \<and> last_emotion (ConversationState_update r st) = emotion r
   \<and> topics_discussed (ConversationState_update r st) = topics_discussed st
   \<and> sentiment_trend (ConversationState_update r st) = sentiment_trend st"
  by (simp add: ConversationState_update_def Let_def)

theorem update_engagement_table_witness:
  "engagement_level (ConversationState_update happy_result ConversationState_init) = ''high''
   \<and> engagement_level
        (ConversationState_update (happy_result\<lparr>emotion_intensity := Some ''medium''\<rparr>)
           (ConversationState_update happy_result ConversationState_init)) = ''normal''
   \<and> engagement_level
        (ConversationState_update (happy_result\<lparr>emotion_intensity := None\<rparr>)
           (ConversationState_update happy_result ConversationState_init)) = ''normal''
   \<and> mood (ConversationState_update happy_result ConversationState_init) = ''positive''
   \<and> last_emotion (ConversationState_update happy_result ConversationState_init) = ''happy''"
  using update_engagement_table [of happy_result ConversationState_init]
    update_engagement_table [of "happy_result\<lparr>emotion_intensity := Some ''medium''\<rparr>"
      "ConversationState_update happy_result ConversationState_init"]
    update_engagement_table [of "happy_result\<lparr>emotion_intensity := None\<rparr>"
      "ConversationState_update happy_result ConversationState_init"]
  by (simp add: happy_result_def)

section \<open>Turns and the history\<close>

lemma chat_failure:
  assumes "fst (chat ai t1 t2 m s) = Inl e"
  shows "history (snd (chat ai t1 t2 m s)) =
           history s @ [\<lparr>role = USER, content = m, timestamp = t1,
                         msg_sentiment = Some (classify_sentiment ai m)\<rparr>]"
    and "state (snd (chat ai t1 t2 m s)) = ConversationState_update (classify_sentiment ai m) (state s)"
    and "results (sentiment_analyzer (snd (chat ai t1 t2 m s))) =
           results (sentiment_analyzer s) @ [classify_sentiment ai m]"
    and "system_prompt (snd (chat ai t1 t2 m s)) = system_prompt s"
    and "Chatbot.more (snd (chat ai t1 t2 m s)) = Chatbot.more s"
  using assms
  by (auto simp: chat_def analyze_def add_message_def Let_def split: sum.splits)

lemma chat_success:
  assumes "fst (chat ai t1 t2 m s) = Inr res"
  shows "history (snd (chat ai t1 t2 m s)) =
           history s @ [\<lparr>role = USER, content = m, timestamp = t1,
                         msg_sentiment = Some (classify_sentiment ai m)\<rparr>,
                        \<lparr>role = ASSISTANT, content = response res, timestamp = t2,
                         msg_sentiment = None\<rparr>]"
    and "state (snd (chat ai t1 t2 m s)) = ConversationState_update (classify_sentiment ai m) (state s)"
    and "results (sentiment_analyzer (snd (chat ai t1 t2 m s))) =
           results (sentiment_analyzer s) @ [classify_sentiment ai m]"
    and "system_prompt (snd (chat ai t1 t2 m s)) = system_prompt s"
    and "Chatbot.more (snd (chat ai t1 t2 m s)) = Chatbot.more s"
    and "sd_sentiment (res_sentiment res) = Some (sentiment (classify_sentiment ai m))"
  using assms
  by (auto simp: chat_def analyze_def add_message_def Let_def SentimentResult_to_dict_def split: sum.splits)

lemma history_reset:
  "history (reset now s) =
     [\<lparr>role = SYSTEM, content = system_prompt s, timestamp = now, msg_sentiment = None\<rparr>]"
  by (simp add: reset_def add_system_message_def Let_def)

lemma length_history_set_personality:
  "length (history (set_personality p now s)) = length (history s)"
  by (simp add: set_personality_def Let_def)

lemma history_Chatbot_init: "length (history (Chatbot_init prompt now)) = 1"
  by (simp add: Chatbot_init_def add_system_message_def Let_def)

lemma run_history_length:
  "length (history s) = 1 + 2 * n \<Longrightarrow> run cs s = (None, s') \<Longrightarrow>
     length (history s') = 1 + 2 * turns_from n cs"
proof (induction cs arbitrary: s n)
  case Nil
  then show ?case by simp
next
  case (Cons c cs)
  show ?case
  proof (cases c)
    case (Chat ai t1 t2 m)
    obtain r s1 where step: "chat ai t1 t2 m s = (r, s1)" by (cases "chat ai t1 t2 m s")
    with Cons.prems(2) Chat obtain res where r: "r = Inr res" and rest: "run cs s1 = (None, s')"
      by (cases r) auto
    from step r have "fst (chat ai t1 t2 m s) = Inr res" "s1 = snd (chat ai t1 t2 m s)" by simp_all
    then have "length (history s1) = length (history s) + 2"
      using chat_success(1) [of ai t1 t2 m s res] by simp
    with Cons.prems(1) have "length (history s1) = 1 + 2 * Suc n" by simp
    from Cons.IH [OF this rest] Chat show ?thesis by simp
  next
    case (Reset now)
    have "length (history (reset now s)) = 1 + 2 * 0" by (simp add: history_reset)
    from Cons.IH [OF this] Cons.prems(2) Reset show ?thesis by simp
  next
    case (SetPersonality p now)
    have "length (history (set_personality p now s)) = 1 + 2 * n"
      using Cons.prems(1) by (simp add: length_history_set_personality)
    from Cons.IH [OF this] Cons.prems(2) SetPersonality show ?thesis by simp
  qed
qed

lemma smart_chat_failure:
  assumes "fst (chat ai t1 t2 m s) = Inl e"
  shows "SmartChatbot_chat ai t1 t2 m s = (Inl e, snd (chat ai t1 t2 m s))"
  using assms by (cases "chat ai t1 t2 m s") (simp add: SmartChatbot_chat_def)

lemma chat_smart_fields:
  "previous_moods (snd (chat ai t1 t2 m s)) = previous_moods s"
  "mood_shift_threshold (snd (chat ai t1 t2 m s)) = mood_shift_threshold s"
  by (simp_all add: chat_def analyze_def add_message_def Let_def split: sum.splits)

lemma smart_chat_success:
  assumes "fst (chat ai t1 t2 m s) = Inr res"
  shows "SmartChatbot_chat ai t1 t2 m s =
     (Inr \<lparr>response = response res, res_sentiment = res_sentiment res,
           res_state = res_state res, mood_context = mood_context res,
           mood_shift_detected =
             detect_mood_shift ((snd (chat ai t1 t2 m s))
               \<lparr>previous_moods := previous_moods s @ [sentiment (classify_sentiment ai m)]\<rparr>)\<rparr>,
      (snd (chat ai t1 t2 m s))
        \<lparr>previous_moods := previous_moods s @ [sentiment (classify_sentiment ai m)]\<rparr>)"
proof -
  obtain s1 where step: "chat ai t1 t2 m s = (Inr res, s1)"
    using assms by (cases "chat ai t1 t2 m s") simp
  have moods: "previous_moods s1 = previous_moods s"
    using chat_smart_fields(1) [of ai t1 t2 m s] step by simp
  have label: "sd_sentiment (res_sentiment res) = Some (sentiment (classify_sentiment ai m))"
    using chat_success(6) [OF assms] .
  show ?thesis
    by (simp add: SmartChatbot_chat_def step label moods Let_def)
qed

lemma reset_fields:
  "history (reset now s) =
     [\<lparr>role = SYSTEM, content = system_prompt s, timestamp = now, msg_sentiment = None\<rparr>]"
  "state (reset now s) = ConversationState_init"
  "results (sentiment_analyzer (reset now s)) = []"
  "system_prompt (reset now s) = system_prompt s"
  "Chatbot.more (reset now s) = Chatbot.more s"
  by (simp_all add: reset_def add_system_message_def clear_history_def Let_def)

lemma reset_smart_fields:
  "previous_moods (reset now s) = previous_moods s"
  "mood_shift_threshold (reset now s) = mood_shift_threshold s"
  by (simp_all add: reset_def add_system_message_def Let_def)

lemma smart_run_history_length:
  "length (history s) = 1 + 2 * n \<Longrightarrow> smart_run cs s = (None, s') \<Longrightarrow>
     length (history s') = 1 + 2 * turns_from n cs"
proof (induction cs arbitrary: s n)
  case Nil
  then show ?case by simp
next
  case (Cons c cs)
  show ?case
  proof (cases c)
    case (Chat ai t1 t2 m)
    show ?thesis
    proof (cases "fst (chat ai t1 t2 m s)")
      case (Inl e)
      from smart_chat_failure [OF this] Cons.prems(2) Chat show ?thesis by simp
    next
      case (Inr res)
      let ?s1 = "(snd (chat ai t1 t2 m s))
        \<lparr>previous_moods := previous_moods s @ [sentiment (classify_sentiment ai m)]\<rparr>"
      from smart_chat_success [OF Inr] Cons.prems(2) Chat
      have rest: "smart_run cs ?s1 = (None, s')" by simp
      have "length (history ?s1) = length (history s) + 2"
        using chat_success(1) [OF Inr] by simp
      with Cons.prems(1) have "length (history ?s1) = 1 + 2 * Suc n" by simp
      from Cons.IH [OF this rest] Chat show ?thesis by simp
    qed
  next
    case (Reset now)
    have "length (history (reset now s)) = 1 + 2 * 0" by (simp add: history_reset)
    from Cons.IH [OF this] Cons.prems(2) Reset show ?thesis by simp
  next
    case (SetPersonality p now)
    have "length (history (set_personality p now s)) = 1 + 2 * n"
      using Cons.prems(1) by (simp add: length_history_set_personality)
    from Cons.IH [OF this] Cons.prems(2) SetPersonality show ?thesis by simp
  qed
qed

lemma history_SmartChatbot_init: "length (history (SmartChatbot_init now)) = 1"
  by (simp add: SmartChatbot_init_def Let_def history_Chatbot_init)


lemma turns_from_chats:
  "turns_from n (map (\<lambda>(ai, t1, t2, m). Chat ai t1 t2 m) turns) = n + length turns"
  by (induction turns arbitrary: n) (auto)

lemma steady_client_returns: "\<exists>res. fst (chat steady_client t1 t2 m s) = Inr res"
  by (simp add: chat_def analyze_def generate_response_def steady_client_def Let_def)

lemma steady_smart_returns:
  "\<exists>res s'. SmartChatbot_chat steady_client t1 t2 m s = (Inr res, s')"
proof -
  obtain base where "fst (chat steady_client t1 t2 m s) = Inr base"
    using steady_client_returns by blast
  from smart_chat_success [OF this] show ?thesis by blast
qed

text \<open>
  C2. From a freshly constructed agent, and from an agent that has just been reset, a
  sequence of calls in which every turn completes leaves a history of length 1 plus twice
  the number of turns since the construction or the last reset: the seeded system message,
  and one user and one assistant message for each turn. A change of personality does not
  change the length. The same holds for the turns of a SmartChatbot.
\<close>

theorem history_length_completed_turns:
  "(run (map (\<lambda>(ai, now_user, now_reply, user_message).
              Chat ai now_user now_reply user_message) turns)
        (Chatbot_init prompt now) = (None, u') \<longrightarrow>
      length (history u') = 1 + 2 * length turns)
   \<and> (run cs (Chatbot_init prompt now) = (None, s') \<longrightarrow>
      length (history s') = 1 + 2 * turns_from 0 cs)
   \<and> (smart_run cs (SmartChatbot_init now) = (None, t') \<longrightarrow>
      length (history t') = 1 + 2 * turns_from 0 cs)
   \<and> (run cs (reset now s) = (None, s'') \<longrightarrow>
      length (history s'') = 1 + 2 * turns_from 0 cs)
   \<and> (smart_run cs (reset now t) = (None, t'') \<longrightarrow>
      length (history t'') = 1 + 2 * turns_from 0 cs)"
proof -
  have fresh: "length (history (Chatbot_init prompt now)) = 1 + 2 * 0"
    by (simp add: history_Chatbot_init)
  have smart_fresh: "length (history (SmartChatbot_init now)) = 1 + 2 * 0"
    by (simp add: history_SmartChatbot_init)
  have after: "length (history (reset now s)) = 1 + 2 * 0"
    by (simp add: history_reset)
  have smart_after: "length (history (reset now t)) = 1 + 2 * 0"
    by (simp add: history_reset)
  have plain: "length (history u') = 1 + 2 * length turns"
    if "run (map (\<lambda>(ai, now_user, now_reply, user_message).
                   Chat ai now_user now_reply user_message) turns)
            (Chatbot_init prompt now) = (None, u')"
    using run_history_length [OF fresh that] by (simp add: turns_from_chats)
  show ?thesis
    using plain run_history_length [OF fresh] smart_run_history_length [OF smart_fresh]
      run_history_length [OF after] smart_run_history_length [OF smart_after]
    by blast
qed

lemma three_turns_complete: "fst (run three_turns (Chatbot_init None 0)) = None"
  by (simp add: three_turns_def Chatbot_init_def chat_def analyze_def add_message_def add_system_message_def 
     generate_response_def steady_client_def Let_def reset_def set_personality_def clear_history_def)

lemma three_turns_complete_smart: "fst (smart_run three_turns (SmartChatbot_init 0)) = None"
  by (simp add: three_turns_def SmartChatbot_init_def Chatbot_init_def SmartChatbot_chat_def chat_def analyze_def add_message_def add_system_message_def 
     generate_response_def steady_client_def Let_def reset_def set_personality_def clear_history_def SentimentResult_to_dict_def)

theorem history_length_completed_turns_witness:
  "fst (run three_turns (Chatbot_init None 0)) = None
   \<and> length (history (snd (run three_turns (Chatbot_init None 0)))) = 5
   \<and> fst (smart_run three_turns (SmartChatbot_init 0)) = None
   \<and> length (history (snd (smart_run three_turns (SmartChatbot_init 0)))) = 5"
proof -
  have done1: "run three_turns (Chatbot_init None 0) =
      (None, snd (run three_turns (Chatbot_init None 0)))"
    using three_turns_complete by (simp add: prod_eq_iff)
  have done2: "smart_run three_turns (SmartChatbot_init 0) =
      (None, snd (smart_run three_turns (SmartChatbot_init 0)))"
    using three_turns_complete_smart by (simp add: prod_eq_iff)
  have count: "turns_from 0 three_turns = 2"
    by (simp add: three_turns_def)
  note inst = history_length_completed_turns [where cs = three_turns and prompt = None
      and now = 0 and s' = "snd (run three_turns (Chatbot_init None 0))"
      and t' = "snd (smart_run three_turns (SmartChatbot_init 0))"]
  from inst done1 have "length (history (snd (run three_turns (Chatbot_init None 0)))) =
      1 + 2 * turns_from 0 three_turns" by blast
  moreover from inst done2
  have "length (history (snd (smart_run three_turns (SmartChatbot_init 0)))) =
      1 + 2 * turns_from 0 three_turns" by blast
  ultimately show ?thesis using three_turns_complete three_turns_complete_smart count by simp
qed

text \<open>
  C7, as the code has it. When reply generation raises, \<open>chat\<close> raises with the user
  message, carrying its sentiment, already appended to the history, the conversation state
  already updated and the result already in the sentiment history; no assistant message is
  appended. The history then ends with a user message that has no reply.
\<close>

theorem chat_failure_keeps_user_message:
  assumes "fst (chat ai now_user now_reply user_message s) = Inl e"
  shows "history (snd (chat ai now_user now_reply user_message s)) =
           history s @ [\<lparr>role = USER, content = user_message, timestamp = now_user,
                         msg_sentiment = Some (classify_sentiment ai user_message)\<rparr>]
    \<and> state (snd (chat ai now_user now_reply user_message s)) =
        ConversationState_update (classify_sentiment ai user_message) (state s)
    \<and> results (sentiment_analyzer (snd (chat ai now_user now_reply user_message s))) =
        results (sentiment_analyzer s) @ [classify_sentiment ai user_message]"
  using chat_failure(1-3) [OF assms] by simp

theorem chat_failure_keeps_user_message_witness:
  "fst (chat failing_client 1 2 ''hello'' (Chatbot_init None 0)) = Inl (CollaboratorError ''unavailable'')
   \<and> history (snd (chat failing_client 1 2 ''hello'' (Chatbot_init None 0))) =
       history (Chatbot_init None 0) @
         [\<lparr>role = USER, content = ''hello'', timestamp = 1, msg_sentiment = Some happy_result\<rparr>]"
proof -
  have failed: "fst (chat failing_client 1 2 ''hello'' (Chatbot_init None 0)) = Inl (CollaboratorError ''unavailable'')"
    by (simp add: chat_def analyze_def generate_response_def steady_client_def failing_client_def Let_def)
  have "classify_sentiment failing_client ''hello'' = happy_result"
    by (simp add: steady_client_def failing_client_def)
  with chat_failure_keeps_user_message [OF failed] failed show ?thesis by simp
qed

text \<open>
  The claim C7 as stated fails: with a client whose reply generation raises, the turn
  fails and the history of a fresh agent has grown by the user message.
\<close>

theorem chat_not_atomic_counterexample:
  "fst (chat failing_client 1 2 ''hello'' (Chatbot_init None 0)) = Inl (CollaboratorError ''unavailable'')
   \<and> history (snd (chat failing_client 1 2 ''hello'' (Chatbot_init None 0))) \<noteq>
       history (Chatbot_init None 0)
   \<and> map role (history (Chatbot_init None 0)) = [SYSTEM]
   \<and> map role (history (snd (chat failing_client 1 2 ''hello'' (Chatbot_init None 0)))) = [SYSTEM, USER]"
  by (simp add: Chatbot_init_def chat_def analyze_def add_message_def add_system_message_def 
     generate_response_def steady_client_def failing_client_def Let_def)

text \<open>
  C9. \<open>set_personality\<close> stores the text as the system prompt. When the history is not
  empty and its first entry is a system message, that entry is replaced by a new system
  message carrying the text and nothing is appended: the length is unchanged and so is
  every entry after the first. When the history is empty or its first entry is not a
  system message, the history is unchanged.
\<close>

theorem set_personality_in_place:
  "system_prompt (set_personality personality now s) = personality
   \<and> length (history (set_personality personality now s)) = length (history s)
   \<and> (\<forall>i. 0 < i \<longrightarrow> history (set_personality personality now s) ! i = history s ! i)
   \<and> (history s \<noteq> [] \<and> role (hd (history s)) = SYSTEM \<longrightarrow>
        history (set_personality personality now s) =
          \<lparr>role = SYSTEM, content = personality, timestamp = now, msg_sentiment = None\<rparr>
            # tl (history s))
   \<and> (history s = [] \<or> role (hd (history s)) \<noteq> SYSTEM \<longrightarrow>
        history (set_personality personality now s) = history s)
   \<and> state (set_personality personality now s) = state s
   \<and> sentiment_analyzer (set_personality personality now s) = sentiment_analyzer s"
  by (cases "history s") (auto simp: set_personality_def Let_def)

theorem set_personality_in_place_witness:
  "history (Chatbot_init None 0) \<noteq> [] \<and> role (hd (history (Chatbot_init None 0))) = SYSTEM
   \<and> history (set_personality ''Be brief.'' 1 (Chatbot_init None 0)) =
        [\<lparr>role = SYSTEM, content = ''Be brief.'', timestamp = 1, msg_sentiment = None\<rparr>]
   \<and> system_prompt (set_personality ''Be brief.'' 1 (Chatbot_init None 0)) = ''Be brief.''
   \<and> (history ((Chatbot_init None 0)\<lparr>history := []\<rparr>) = []
        \<or> role (hd (history ((Chatbot_init None 0)\<lparr>history := []\<rparr>))) \<noteq> SYSTEM)
   \<and> history (set_personality ''Be brief.'' 1 ((Chatbot_init None 0)\<lparr>history := []\<rparr>)) = []"
proof -
  have seeded: "history (Chatbot_init None 0) \<noteq> [] \<and> role (hd (history (Chatbot_init None 0))) = SYSTEM"
    by (simp add: Chatbot_init_def add_system_message_def Let_def)
  have tail: "tl (history (Chatbot_init None 0)) = []"
    by (simp add: Chatbot_init_def add_system_message_def Let_def)
  have emptied: "history ((Chatbot_init None 0)\<lparr>history := []\<rparr>) = []"
    by simp
  from set_personality_in_place [of "''Be brief.''" 1 "Chatbot_init None 0"] seeded tail
  have first: "history (set_personality ''Be brief.'' 1 (Chatbot_init None 0)) =
        [\<lparr>role = SYSTEM, content = ''Be brief.'', timestamp = 1, msg_sentiment = None\<rparr>]
      \<and> system_prompt (set_personality ''Be brief.'' 1 (Chatbot_init None 0)) = ''Be brief.''"
    by simp
  from set_personality_in_place [of "''Be brief.''" 1 "(Chatbot_init None 0)\<lparr>history := []\<rparr>"] emptied
  have second: "history (set_personality ''Be brief.'' 1 ((Chatbot_init None 0)\<lparr>history := []\<rparr>)) = []"
    by simp
  from seeded first second emptied show ?thesis by simp
qed

section \<open>Reset\<close>

text \<open>
  C10. \<open>reset\<close> on a SmartChatbot leaves \<open>previous_moods\<close> and the threshold as they were.
  So the first turn after a reset compares its sentiment label with the last label
  recorded before the reset, while the first turn of a fresh agent reports no shift.
\<close>

theorem reset_keeps_previous_moods:
  "previous_moods (reset now s) = previous_moods s
   \<and> mood_shift_threshold (reset now s) = mood_shift_threshold s
   \<and> (mood_shift_threshold s = 2 \<longrightarrow> previous_moods s = ys @ [a] \<longrightarrow>
        SmartChatbot_chat ai now_user now_reply user_message (reset now s) = (Inr res, s') \<longrightarrow>
          previous_moods s' = ys @ [a, sentiment (classify_sentiment ai user_message)]
          \<and> mood_shift_detected res =
              (let b = sentiment (classify_sentiment ai user_message)
               in if a = b then None
                  else if dict_get mood_values a 0 < dict_get mood_values b 0
                    then Some \<lparr>ms_direction = ''improving'', ms_from = a, ms_to = b\<rparr>
                  else if dict_get mood_values b 0 < dict_get mood_values a 0
                    then Some \<lparr>ms_direction = ''declining'', ms_from = a, ms_to = b\<rparr>
                  else None))
   \<and> (SmartChatbot_chat ai now_user now_reply user_message (SmartChatbot_init now) = (Inr res0, s0) \<longrightarrow>
          mood_shift_detected res0 = None)"
proof -
  have kept: "previous_moods (reset now s) = previous_moods s"
    "mood_shift_threshold (reset now s) = mood_shift_threshold s"
    by (rule reset_smart_fields)+
  have after: "previous_moods s' = ys @ [a, sentiment (classify_sentiment ai user_message)]
          \<and> mood_shift_detected res =
              (let b = sentiment (classify_sentiment ai user_message)
               in if a = b then None
                  else if dict_get mood_values a 0 < dict_get mood_values b 0
                    then Some \<lparr>ms_direction = ''improving'', ms_from = a, ms_to = b\<rparr>
                  else if dict_get mood_values b 0 < dict_get mood_values a 0
                    then Some \<lparr>ms_direction = ''declining'', ms_from = a, ms_to = b\<rparr>
                  else None)"
    if thr: "mood_shift_threshold s = 2" and moods: "previous_moods s = ys @ [a]"
      and turn: "SmartChatbot_chat ai now_user now_reply user_message (reset now s) = (Inr res, s')"
  proof -
    let ?b = "sentiment (classify_sentiment ai user_message)"
    let ?c = "chat ai now_user now_reply user_message (reset now s)"
    obtain base where ok: "fst ?c = Inr base"
      using turn smart_chat_failure [of ai now_user now_reply user_message "reset now s"]
      by (cases "fst ?c") auto
    let ?s2 = "(snd ?c)\<lparr>previous_moods := previous_moods (reset now s) @ [?b]\<rparr>"
    from smart_chat_success [OF ok] turn
    have s': "s' = ?s2" and shift: "mood_shift_detected res = detect_mood_shift ?s2"
      by auto
    have moods2: "previous_moods ?s2 = ys @ [a, ?b]"
      using kept(1) moods by simp
    have thr2: "mood_shift_threshold ?s2 = 2"
      using chat_smart_fields(2) [of ai now_user now_reply user_message "reset now s"] kept(2) thr
      by simp
    from detect_two_last [OF thr2 moods2] shift s' moods2 show ?thesis
      by (simp add: Let_def)
  qed
  have fresh: "mood_shift_detected res0 = None"
    if turn: "SmartChatbot_chat ai now_user now_reply user_message (SmartChatbot_init now) = (Inr res0, s0)"
  proof -
    let ?b = "sentiment (classify_sentiment ai user_message)"
    let ?c = "chat ai now_user now_reply user_message (SmartChatbot_init now)"
    obtain base where ok: "fst ?c = Inr base"
      using turn smart_chat_failure [of ai now_user now_reply user_message "SmartChatbot_init now"]
      by (cases "fst ?c") auto
    let ?s2 = "(snd ?c)\<lparr>previous_moods := previous_moods (SmartChatbot_init now) @ [?b]\<rparr>"
    from smart_chat_success [OF ok] turn
    have shift: "mood_shift_detected res0 = detect_mood_shift ?s2"
      by auto
    have thr2: "mood_shift_threshold ?s2 = 2"
      using chat_smart_fields(2) [of ai now_user now_reply user_message "SmartChatbot_init now"]
      by (simp add: SmartChatbot_init_def Let_def)
    have "length (previous_moods ?s2) < 2"
      by (simp add: SmartChatbot_init_def Let_def)
    from detect_short [OF thr2 this] shift show ?thesis by simp
  qed
  from kept after fresh show ?thesis by blast
qed

theorem reset_keeps_previous_moods_witness:
  "mood_shift_threshold (tracked [''negative'']) = 2
   \<and> previous_moods (reset 1 (tracked [''negative''])) = [''negative'']
   \<and> (\<exists>res s'. SmartChatbot_chat steady_client 2 3 ''hi'' (reset 1 (tracked [''negative''])) = (Inr res, s')
         \<and> previous_moods s' = [''negative'', ''positive'']
         \<and> mood_shift_detected res =
             Some \<lparr>ms_direction = ''improving'', ms_from = ''negative'', ms_to = ''positive''\<rparr>)
   \<and> (\<exists>res0 s0. SmartChatbot_chat steady_client 2 3 ''hi'' (SmartChatbot_init 1) = (Inr res0, s0)
         \<and> mood_shift_detected res0 = None)"
proof -
  let ?s = "tracked [''negative'']"
  have thr: "mood_shift_threshold ?s = 2"
    by (simp add: tracked_def SmartChatbot_init_def Let_def)
  have moods: "previous_moods ?s = [] @ [''negative'']"
    by (simp add: tracked_def)
  have label: "sentiment (classify_sentiment steady_client ''hi'') = ''positive''"
    by (simp add: steady_client_def happy_result_def)
  obtain res s' where turn:
    "SmartChatbot_chat steady_client 2 3 ''hi'' (reset 1 ?s) = (Inr res, s')"
    using steady_smart_returns by blast
  obtain res0 s0 where turn0:
    "SmartChatbot_chat steady_client 2 3 ''hi'' (SmartChatbot_init 1) = (Inr res0, s0)"
    using steady_smart_returns by blast
  note inst = reset_keeps_previous_moods [of 1 ?s "[]" "''negative''" steady_client 2 3 "''hi''"
      res s' res0 s0]
  from inst moods have kept: "previous_moods (reset 1 ?s) = [''negative'']"
    by simp
  from inst thr moods turn label
  have after: "previous_moods s' = [''negative'', ''positive'']
     \<and> mood_shift_detected res =
         Some \<lparr>ms_direction = ''improving'', ms_from = ''negative'', ms_to = ''positive''\<rparr>"
    by (simp add: Let_def mood_values_table)
  from inst turn0 have fresh: "mood_shift_detected res0 = None"
    by simp
  from thr kept turn after turn0 fresh show ?thesis by blast
qed

lemma Chatbot_init_fields:
  "history (Chatbot_init prompt now) =
     [\<lparr>role = SYSTEM, content = system_prompt (Chatbot_init prompt now), timestamp = now,
       msg_sentiment = None\<rparr>]"
  "state (Chatbot_init prompt now) = ConversationState_init"
  "results (sentiment_analyzer (Chatbot_init prompt now)) = []"
  by (simp_all add: Chatbot_init_def add_system_message_def Let_def)

lemma SmartChatbot_init_fields:
  "history (SmartChatbot_init now) =
     [\<lparr>role = SYSTEM, content = system_prompt (SmartChatbot_init now), timestamp = now,
       msg_sentiment = None\<rparr>]"
  "state (SmartChatbot_init now) = ConversationState_init"
  "results (sentiment_analyzer (SmartChatbot_init now)) = []"
  by (simp_all add: SmartChatbot_init_def Chatbot_init_def add_system_message_def Let_def)

lemma default_system_prompt_nonempty: "default_system_prompt \<noteq> []"
  by (simp add: default_system_prompt_def)

lemma system_prompt_Chatbot_init:
  "system_prompt (Chatbot_init prompt now) =
     (case prompt of None \<Rightarrow> default_system_prompt
      | Some t \<Rightarrow> if t = [] then default_system_prompt else t)"
  by (simp add: Chatbot_init_def add_system_message_def Let_def)

lemma system_prompt_SmartChatbot_init:
  "system_prompt (SmartChatbot_init now) = default_system_prompt"
  by (simp add: SmartChatbot_init_def system_prompt_Chatbot_init Let_def)

lemma seeded_observations:
  assumes "history a = [\<lparr>role = SYSTEM, content = p, timestamp = t, msg_sentiment = None\<rparr>]"
    and "history b = [\<lparr>role = SYSTEM, content = p, timestamp = t', msg_sentiment = None\<rparr>]"
    and "state a = state b"
    and "results (sentiment_analyzer a) = results (sentiment_analyzer b)"
  shows "get_statistics a = get_statistics b"
    and "get_sentiment_history a = get_sentiment_history b"
    and "get_user_messages a = get_user_messages b"
    and "calculate_statistics (get_sentiment_history a) =
         calculate_statistics (get_sentiment_history b)"
    and "get_history a = map (\<lambda>d. d\<lparr>md_timestamp := t\<rparr>) (get_history b)"
    and "t = t' \<Longrightarrow> get_history a = get_history b"
  using assms
  by (simp_all add: get_statistics_def get_history_def get_sentiment_history_def
      get_user_messages_def get_summary_stats_def get_history_dicts_def Message_to_dict_def)

lemma reset_against_fresh:
  fixes s :: "'a Chatbot_scheme" and f :: "'b Chatbot_scheme"
  assumes seeded: "history f =
      [\<lparr>role = SYSTEM, content = system_prompt f, timestamp = now', msg_sentiment = None\<rparr>]"
    and st: "state f = ConversationState_init"
    and sa: "results (sentiment_analyzer f) = []"
    and same: "system_prompt f = system_prompt s"
  shows "get_statistics (reset now s) = get_statistics f
    \<and> get_sentiment_history (reset now s) = get_sentiment_history f
    \<and> get_user_messages (reset now s) = get_user_messages f
    \<and> calculate_statistics (get_sentiment_history (reset now s)) =
        calculate_statistics (get_sentiment_history f)
    \<and> get_history (reset now s) = map (\<lambda>d. d\<lparr>md_timestamp := now\<rparr>) (get_history f)
    \<and> (now = now' \<longrightarrow> get_history (reset now s) = get_history f)"
proof -
  have h: "history f =
      [\<lparr>role = SYSTEM, content = system_prompt s, timestamp = now', msg_sentiment = None\<rparr>]"
    using seeded same by simp
  have st': "state (reset now s) = state f" by (simp add: reset_fields(2) st)
  have sa': "results (sentiment_analyzer (reset now s)) = results (sentiment_analyzer f)"
    by (simp add: reset_fields(3) sa)
  from seeded_observations [OF reset_fields(1) h st' sa'] show ?thesis by simp
qed

lemma briefed_prompt: "system_prompt briefed = ''Be brief.''"
  by (simp add: briefed_def Chatbot_init_def chat_def analyze_def add_message_def
      add_system_message_def generate_response_def steady_client_def set_personality_def
      Let_def)

text \<open>
  C6, as the code has it. After \<open>reset\<close>, from any state whose stored system prompt is not
  empty, the statistics, the sentiment history, the user messages and the statistics
  computed over the sentiment history are those of a freshly constructed agent given that
  prompt. The history is that of the fresh agent with the clock reading of the reset as
  the timestamp of the seeded system message, and the same history when both are created
  at the same reading. More generally this holds against every fresh Chatbot and fresh
  SmartChatbot whose system prompt is the stored one.
\<close>

theorem reset_like_fresh:
  "(system_prompt s \<noteq> [] \<longrightarrow>
      get_statistics (reset now s) =
        get_statistics (Chatbot_init (Some (system_prompt s)) now')
      \<and> get_sentiment_history (reset now s) =
          get_sentiment_history (Chatbot_init (Some (system_prompt s)) now')
      \<and> get_user_messages (reset now s) =
          get_user_messages (Chatbot_init (Some (system_prompt s)) now')
      \<and> calculate_statistics (get_sentiment_history (reset now s)) =
          calculate_statistics
            (get_sentiment_history (Chatbot_init (Some (system_prompt s)) now'))
      \<and> get_history (reset now s) =
          map (\<lambda>d. d\<lparr>md_timestamp := now\<rparr>)
            (get_history (Chatbot_init (Some (system_prompt s)) now'))
      \<and> (now = now' \<longrightarrow>
           get_history (reset now s) =
             get_history (Chatbot_init (Some (system_prompt s)) now')))
   \<and> (system_prompt (Chatbot_init prompt now') = system_prompt s \<longrightarrow>
      get_statistics (reset now s) = get_statistics (Chatbot_init prompt now')
      \<and> get_sentiment_history (reset now s) =
          get_sentiment_history (Chatbot_init prompt now')
      \<and> get_user_messages (reset now s) = get_user_messages (Chatbot_init prompt now')
      \<and> calculate_statistics (get_sentiment_history (reset now s)) =
          calculate_statistics (get_sentiment_history (Chatbot_init prompt now'))
      \<and> get_history (reset now s) =
          map (\<lambda>d. d\<lparr>md_timestamp := now\<rparr>) (get_history (Chatbot_init prompt now'))
      \<and> (now = now' \<longrightarrow>
           get_history (reset now s) = get_history (Chatbot_init prompt now')))
   \<and> (system_prompt (SmartChatbot_init now') = system_prompt s \<longrightarrow>
      get_statistics (reset now s) = get_statistics (SmartChatbot_init now')
      \<and> get_sentiment_history (reset now s) = get_sentiment_history (SmartChatbot_init now')
      \<and> get_user_messages (reset now s) = get_user_messages (SmartChatbot_init now')
      \<and> calculate_statistics (get_sentiment_history (reset now s)) =
          calculate_statistics (get_sentiment_history (SmartChatbot_init now'))
      \<and> get_history (reset now s) =
          map (\<lambda>d. d\<lparr>md_timestamp := now\<rparr>) (get_history (SmartChatbot_init now'))
      \<and> (now = now' \<longrightarrow>
           get_history (reset now s) = get_history (SmartChatbot_init now')))"
proof (intro conjI)
  show "system_prompt s \<noteq> [] \<longrightarrow>
      get_statistics (reset now s) =
        get_statistics (Chatbot_init (Some (system_prompt s)) now')
      \<and> get_sentiment_history (reset now s) =
          get_sentiment_history (Chatbot_init (Some (system_prompt s)) now')
      \<and> get_user_messages (reset now s) =
          get_user_messages (Chatbot_init (Some (system_prompt s)) now')
      \<and> calculate_statistics (get_sentiment_history (reset now s)) =
          calculate_statistics
            (get_sentiment_history (Chatbot_init (Some (system_prompt s)) now'))
      \<and> get_history (reset now s) =
          map (\<lambda>d. d\<lparr>md_timestamp := now\<rparr>)
            (get_history (Chatbot_init (Some (system_prompt s)) now'))
      \<and> (now = now' \<longrightarrow>
           get_history (reset now s) =
             get_history (Chatbot_init (Some (system_prompt s)) now'))"
  proof
    assume "system_prompt s \<noteq> []"
    then have "system_prompt (Chatbot_init (Some (system_prompt s)) now') = system_prompt s"
      by (simp add: system_prompt_Chatbot_init)
    from reset_against_fresh [OF Chatbot_init_fields this] show
      "get_statistics (reset now s) =
        get_statistics (Chatbot_init (Some (system_prompt s)) now')
      \<and> get_sentiment_history (reset now s) =
          get_sentiment_history (Chatbot_init (Some (system_prompt s)) now')
      \<and> get_user_messages (reset now s) =
          get_user_messages (Chatbot_init (Some (system_prompt s)) now')
      \<and> calculate_statistics (get_sentiment_history (reset now s)) =
          calculate_statistics
            (get_sentiment_history (Chatbot_init (Some (system_prompt s)) now'))
      \<and> get_history (reset now s) =
          map (\<lambda>d. d\<lparr>md_timestamp := now\<rparr>)
            (get_history (Chatbot_init (Some (system_prompt s)) now'))
      \<and> (now = now' \<longrightarrow>
           get_history (reset now s) =
             get_history (Chatbot_init (Some (system_prompt s)) now'))" .
  qed
next
  show "system_prompt (Chatbot_init prompt now') = system_prompt s \<longrightarrow>
      get_statistics (reset now s) = get_statistics (Chatbot_init prompt now')
      \<and> get_sentiment_history (reset now s) =
          get_sentiment_history (Chatbot_init prompt now')
      \<and> get_user_messages (reset now s) = get_user_messages (Chatbot_init prompt now')
      \<and> calculate_statistics (get_sentiment_history (reset now s)) =
          calculate_statistics (get_sentiment_history (Chatbot_init prompt now'))
      \<and> get_history (reset now s) =
          map (\<lambda>d. d\<lparr>md_timestamp := now\<rparr>) (get_history (Chatbot_init prompt now'))
      \<and> (now = now' \<longrightarrow>
           get_history (reset now s) = get_history (Chatbot_init prompt now'))"
    using reset_against_fresh [OF Chatbot_init_fields] by blast
next
  show "system_prompt (SmartChatbot_init now') = system_prompt s \<longrightarrow>
      get_statistics (reset now s) = get_statistics (SmartChatbot_init now')
      \<and> get_sentiment_history (reset now s) = get_sentiment_history (SmartChatbot_init now')
      \<and> get_user_messages (reset now s) = get_user_messages (SmartChatbot_init now')
      \<and> calculate_statistics (get_sentiment_history (reset now s)) =
          calculate_statistics (get_sentiment_history (SmartChatbot_init now'))
      \<and> get_history (reset now s) =
          map (\<lambda>d. d\<lparr>md_timestamp := now\<rparr>) (get_history (SmartChatbot_init now'))
      \<and> (now = now' \<longrightarrow>
           get_history (reset now s) = get_history (SmartChatbot_init now'))"
    using reset_against_fresh [OF SmartChatbot_init_fields] by blast
qed

theorem reset_like_fresh_witness:
  "system_prompt briefed \<noteq> []
   \<and> length (history briefed) = 3
   \<and> get_statistics (reset 9 briefed) = get_statistics (Chatbot_init (Some ''Be brief.'') 4)
   \<and> get_sentiment_history (reset 9 briefed) =
       get_sentiment_history (Chatbot_init (Some ''Be brief.'') 4)
   \<and> get_history (reset 9 briefed) =
       map (\<lambda>d. d\<lparr>md_timestamp := 9\<rparr>) (get_history (Chatbot_init (Some ''Be brief.'') 4))
   \<and> get_history (reset 9 briefed) = get_history (Chatbot_init (Some ''Be brief.'') 9)
   \<and> system_prompt (SmartChatbot_init 4) = system_prompt (tracked [''negative''])
   \<and> get_statistics (reset 9 (tracked [''negative''])) = get_statistics (SmartChatbot_init 4)
   \<and> get_history (reset 9 (tracked [''negative''])) =
       map (\<lambda>d. d\<lparr>md_timestamp := 9\<rparr>) (get_history (SmartChatbot_init 4))"
proof -
  have nonempty: "system_prompt briefed \<noteq> []"
    by (simp add: briefed_prompt)
  have len: "length (history briefed) = 3"
    by (simp add: briefed_def Chatbot_init_def chat_def analyze_def add_message_def
        add_system_message_def generate_response_def steady_client_def set_personality_def
        Let_def)
  have same2: "system_prompt (SmartChatbot_init 4) = system_prompt (tracked [''negative''])"
    by (simp add: tracked_def SmartChatbot_init_def Chatbot_init_def add_system_message_def Let_def)
  note at_4 = reset_like_fresh [where s = briefed and now = 9 and now' = 4]
  note at_9 = reset_like_fresh [where s = briefed and now = 9 and now' = 9]
  note smart = reset_like_fresh [where s = "tracked [''negative'']" and now = 9 and now' = 4]
  from at_4 nonempty have "get_statistics (reset 9 briefed) =
        get_statistics (Chatbot_init (Some (system_prompt briefed)) 4)
      \<and> get_sentiment_history (reset 9 briefed) =
          get_sentiment_history (Chatbot_init (Some (system_prompt briefed)) 4)
      \<and> get_history (reset 9 briefed) =
          map (\<lambda>d. d\<lparr>md_timestamp := 9\<rparr>)
            (get_history (Chatbot_init (Some (system_prompt briefed)) 4))"
    by blast
  then have a: "get_statistics (reset 9 briefed) =
        get_statistics (Chatbot_init (Some ''Be brief.'') 4)
      \<and> get_sentiment_history (reset 9 briefed) =
          get_sentiment_history (Chatbot_init (Some ''Be brief.'') 4)
      \<and> get_history (reset 9 briefed) =
          map (\<lambda>d. d\<lparr>md_timestamp := 9\<rparr>) (get_history (Chatbot_init (Some ''Be brief.'') 4))"
    unfolding briefed_prompt .
  from at_9 nonempty have
    "get_history (reset 9 briefed) = get_history (Chatbot_init (Some (system_prompt briefed)) 9)"
    by blast
  then have b:
    "get_history (reset 9 briefed) = get_history (Chatbot_init (Some ''Be brief.'') 9)"
    unfolding briefed_prompt .
  from smart same2 have c:
    "get_statistics (reset 9 (tracked [''negative''])) = get_statistics (SmartChatbot_init 4)
     \<and> get_history (reset 9 (tracked [''negative''])) =
       map (\<lambda>d. d\<lparr>md_timestamp := 9\<rparr>) (get_history (SmartChatbot_init 4))"
    by blast
  from nonempty len a b same2 c show ?thesis by blast
qed

text \<open>
  The claim C6 as stated fails. After \<open>set_personality\<close> with the empty text the stored
  prompt is empty; \<open>reset\<close> seeds the history with it, while the constructor given the
  empty prompt, or none, seeds the default prompt. And a reset at one clock reading gives
  another history than a construction at another reading, the timestamps of the seeded
  messages being different.
\<close>

theorem reset_not_like_fresh_counterexample:
  "system_prompt emptied = []
   \<and> get_history (reset 9 emptied) =
       [\<lparr>md_role = ''system'', md_content = [], md_timestamp = 9, md_sentiment = None\<rparr>]
   \<and> get_history (Chatbot_init (Some (system_prompt emptied)) 9) =
       [\<lparr>md_role = ''system'', md_content = default_system_prompt, md_timestamp = 9,
         md_sentiment = None\<rparr>]
   \<and> get_history (reset 9 emptied) \<noteq> get_history (Chatbot_init (Some (system_prompt emptied)) 9)
   \<and> get_history (reset 9 emptied) \<noteq> get_history (Chatbot_init None 9)
   \<and> get_history (reset 9 briefed) \<noteq> get_history (Chatbot_init (Some (system_prompt briefed)) 4)"
proof -
  have p: "system_prompt emptied = []"
    by (simp add: emptied_def set_personality_def Let_def)
  have r: "get_history (reset 9 emptied) =
       [\<lparr>md_role = ''system'', md_content = [], md_timestamp = 9, md_sentiment = None\<rparr>]"
    by (simp add: get_history_def reset_fields(1) p Message_to_dict_def)
  have f: "get_history (Chatbot_init (Some []) 9) =
       [\<lparr>md_role = ''system'', md_content = default_system_prompt, md_timestamp = 9,
         md_sentiment = None\<rparr>]"
    by (simp add: get_history_def Chatbot_init_fields(1) system_prompt_Chatbot_init
        Message_to_dict_def)
  have n: "get_history (Chatbot_init None 9) =
       [\<lparr>md_role = ''system'', md_content = default_system_prompt, md_timestamp = 9,
         md_sentiment = None\<rparr>]"
    by (simp add: get_history_def Chatbot_init_fields(1) system_prompt_Chatbot_init
        Message_to_dict_def)
  have b: "get_history (reset 9 briefed) \<noteq> get_history (Chatbot_init (Some (system_prompt briefed)) 4)"
    by (simp add: get_history_def reset_fields(1) Chatbot_init_fields(1) Message_to_dict_def
        briefed_prompt)
  from p r f n b default_system_prompt_nonempty show ?thesis
    by (simp del: not_Cons_self2)
qed

section \<open>Statistics\<close>

text \<open>
  C5. On the empty sentiment history \<open>_calculate_statistics\<close> returns zero messages, two
  empty distributions and the average confidence 0; nothing else is set, the dominant
  labels are missing.
\<close>

theorem calculate_statistics_empty:
  "calculate_statistics [] =
     \<lparr>st_total_messages = Some 0, st_sentiment_distribution = Some [],
      st_emotion_distribution = Some [], st_average_confidence = Some 0,
      st_dominant_sentiment = None, st_dominant_emotion = None\<rparr>"
  by (simp add: calculate_statistics_def)

lemma first_occurrences_snoc:
  "first_occurrences (xs @ [x]) =
     (if x \<in> set xs then first_occurrences xs else first_occurrences xs @ [x])"
  by (simp add: first_occurrences_def)

lemma set_first_occurrences [simp]: "set (first_occurrences xs) = set xs"
  by (simp add: first_occurrences_def)

lemma distinct_first_occurrences [simp]: "distinct (first_occurrences xs)"
  by (simp add: first_occurrences_def)

lemma items_set_tabulate:
  "distinct ks \<Longrightarrow>
   items_set k v (map (\<lambda>l. (l, f l)) ks) =
     (if k \<in> set ks then map (\<lambda>l. (l, if l = k then v else f l)) ks
      else map (\<lambda>l. (l, f l)) ks @ [(k, v)])"
  by (induction ks) auto

lemma items_get_tabulate:
  "items_get (map (\<lambda>l. (l, f l)) ks) k d = (if k \<in> set ks then f k else d)"
  by (induction ks) (auto simp: items_get_def)

lemma spec_frequency_map_snoc:
  "items_set x (items_get (spec_frequency_map xs) x 0 + 1) (spec_frequency_map xs) =
     spec_frequency_map (xs @ [x])"
  by (auto simp: spec_frequency_map_def items_set_tabulate items_get_tabulate
      first_occurrences_snoc)

lemma tally_frequency:
  "tally items (spec_frequency_map ss) (spec_frequency_map es) tc =
     (spec_frequency_map (ss @ map (\<lambda>i. field_get (sd_sentiment i) ''neutral'') items),
      spec_frequency_map (es @ map (\<lambda>i. field_get (sd_emotion i) ''neutral'') items),
      tc + sum_list (map (\<lambda>i. field_get (sd_confidence i) (1 / 2)) items))"
proof (induction items arbitrary: ss es tc)
  case Nil
  then show ?case by simp
next
  case (Cons item items)
  show ?case
    using Cons.IH [of "ss @ [field_get (sd_sentiment item) ''neutral'']"
        "es @ [field_get (sd_emotion item) ''neutral'']"
        "tc + field_get (sd_confidence item) (1 / 2)"]
    by (simp add: Let_def spec_frequency_map_snoc add.assoc)
qed

lemma first_max_split:
  "\<exists>pre post. best # rest = pre @ first_max best rest # post
     \<and> (\<forall>kv\<in>set pre. snd kv < snd (first_max best rest))
     \<and> (\<forall>kv\<in>set post. snd kv \<le> snd (first_max best rest))"
proof (induction rest arbitrary: best)
  case Nil
  show ?case
    by (intro exI [of _ "[]"]) simp
next
  case (Cons kv rest)
  define nxt where "nxt = (if snd best < snd kv then kv else best)"
  define r where "r = first_max nxt rest"
  from Cons.IH [of nxt] obtain pre post where
    split: "nxt # rest = pre @ r # post"
    and before: "\<forall>p\<in>set pre. snd p < snd r"
    and after: "\<forall>p\<in>set post. snd p \<le> snd r"
    unfolding r_def by blast
  have r: "first_max best (kv # rest) = r" by (simp add: r_def nxt_def)
  have goal: "\<exists>pre post. best # kv # rest = pre @ r # post
     \<and> (\<forall>p\<in>set pre. snd p < snd r) \<and> (\<forall>p\<in>set post. snd p \<le> snd r)"
  proof (cases "snd best < snd kv")
    case True
    then have next_kv: "nxt = kv" by (simp add: nxt_def)
    have "snd kv \<le> snd r"
    proof (cases pre)
      case Nil
      with split next_kv show ?thesis by simp
    next
      case (Cons p pre')
      with split next_kv have "p = kv" by simp
      with before Cons show ?thesis by simp
    qed
    with True have first: "snd best < snd r" by simp
    have "best # kv # rest = (best # pre) @ r # post"
      using split next_kv by simp
    moreover have "\<forall>p\<in>set (best # pre). snd p < snd r"
      using first before by simp
    ultimately show ?thesis using after by blast
  next
    case False
    then have next_best: "nxt = best" by (simp add: nxt_def)
    show ?thesis
    proof (cases pre)
      case Nil
      with split next_best have rb: "r = best" and pr: "post = rest" by simp_all
      have "best # kv # rest = [] @ r # (kv # rest)" using rb by simp
      moreover have "\<forall>p\<in>set (kv # rest). snd p \<le> snd r"
        using after False rb pr by auto
      moreover have "\<forall>p\<in>set ([] :: ('a \<times> int) list). snd p < snd r" by simp
      ultimately show ?thesis by blast
    next
      case (Cons p pre')
      with split next_best have p: "p = best" and rest: "rest = pre' @ r # post" by simp_all
      from before Cons p have "snd best < snd r" by simp
      with False have "snd kv < snd r" by simp
      moreover have "best # kv # rest = (best # kv # pre') @ r # post"
        using rest by simp
      moreover have "\<forall>p\<in>set pre'. snd p < snd r" using before Cons by simp
      ultimately have "best # kv # rest = (best # kv # pre') @ r # post
          \<and> (\<forall>p\<in>set (best # kv # pre'). snd p < snd r)"
        using \<open>snd best < snd r\<close> by simp
      with after show ?thesis by blast
    qed
  qed
  then show ?case unfolding r .
qed

lemma dominant_first_maximum:
  assumes "counts \<noteq> []"
  shows "\<exists>pre c post. counts = pre @ (dominant counts, c) # post
     \<and> (\<forall>kv\<in>set pre. snd kv < c) \<and> (\<forall>kv\<in>set post. snd kv \<le> c)"
proof -
  from assms obtain kv rest where counts: "counts = kv # rest" by (cases counts) auto
  let ?r = "first_max kv rest"
  from first_max_split [of kv rest] obtain pre post where
    split: "kv # rest = pre @ ?r # post"
    and before: "\<forall>p\<in>set pre. snd p < snd ?r"
    and after: "\<forall>p\<in>set post. snd p \<le> snd ?r"
    by blast
  have "dominant counts = fst ?r"
    by (simp add: counts dominant_def)
  then have "?r = (dominant counts, snd ?r)" by simp
  with split counts have "counts = pre @ (dominant counts, snd ?r) # post" by simp
  with before after show ?thesis by blast
qed

lemma spec_frequency_map_nonempty: "labels \<noteq> [] \<Longrightarrow> spec_frequency_map labels \<noteq> []"
proof
  assume "labels \<noteq> []" and "spec_frequency_map labels = []"
  then have "first_occurrences labels = []" by (simp add: spec_frequency_map_def)
  then have "set (first_occurrences labels) = {}" by simp
  with \<open>labels \<noteq> []\<close> show False by simp
qed

lemma calculate_statistics_fields:
  assumes "sentiment_history \<noteq> []"
  shows "calculate_statistics sentiment_history =
     \<lparr>st_total_messages = Some (int (length sentiment_history)),
      st_sentiment_distribution = Some (spec_frequency_map
         (map (\<lambda>i. field_get (sd_sentiment i) ''neutral'') sentiment_history)),
      st_emotion_distribution = Some (spec_frequency_map
         (map (\<lambda>i. field_get (sd_emotion i) ''neutral'') sentiment_history)),
      st_average_confidence = Some
         (sum_list (map (\<lambda>i. field_get (sd_confidence i) (1 / 2)) sentiment_history)
            / real (length sentiment_history)),
      st_dominant_sentiment = Some (dominant (spec_frequency_map
         (map (\<lambda>i. field_get (sd_sentiment i) ''neutral'') sentiment_history))),
      st_dominant_emotion = Some (dominant (spec_frequency_map
         (map (\<lambda>i. field_get (sd_emotion i) ''neutral'') sentiment_history)))\<rparr>"
proof -
  have start: "spec_frequency_map [] = []"
    by (simp add: spec_frequency_map_def first_occurrences_def)
  have "tally sentiment_history [] [] 0 =
     (spec_frequency_map (map (\<lambda>i. field_get (sd_sentiment i) ''neutral'') sentiment_history),
      spec_frequency_map (map (\<lambda>i. field_get (sd_emotion i) ''neutral'') sentiment_history),
      sum_list (map (\<lambda>i. field_get (sd_confidence i) (1 / 2)) sentiment_history))"
    using tally_frequency [of sentiment_history "[]" "[]" 0] by (simp add: start)
  with assms show ?thesis
    by (simp add: calculate_statistics_def)
qed

lemma sample_statistics:
  "calculate_statistics sample_history =
     \<lparr>st_total_messages = Some 3,
      st_sentiment_distribution = Some [(''positive'', 2), (''negative'', 1)],
      st_emotion_distribution = Some [(''happy'', 2), (''sad'', 1)],
      st_average_confidence = Some (7 / 10),
      st_dominant_sentiment = Some ''positive'',
      st_dominant_emotion = Some ''happy''\<rparr>"
  by (simp add: calculate_statistics_def sample_history_def Let_def field_get_def
      items_get_def dominant_def)

text \<open>
  C4. For a sentiment history that is not empty, \<open>_calculate_statistics\<close> returns the length
  of the history as \<open>total_messages\<close>; as the two distributions the frequency maps of the
  sentiment and of the emotion labels, a missing label counted as neutral; as
  \<open>average_confidence\<close> the arithmetic mean of the confidences, a missing one taken as 0.5;
  and as each dominant label a key of its distribution whose count no key exceeds and
  which every key before it in iteration order stays strictly below: the first maximum.
  On the three results of the example it returns 3 messages, the average 0.7 and the
  dominant labels positive and happy.
\<close>

theorem calculate_statistics_nonempty:
  assumes "sentiment_history \<noteq> []"
  shows "st_total_messages (calculate_statistics sentiment_history) =
           Some (int (length sentiment_history))
    \<and> st_sentiment_distribution (calculate_statistics sentiment_history) =
        Some (spec_frequency_map
           (map (\<lambda>i. field_get (sd_sentiment i) ''neutral'') sentiment_history))
    \<and> st_emotion_distribution (calculate_statistics sentiment_history) =
        Some (spec_frequency_map
           (map (\<lambda>i. field_get (sd_emotion i) ''neutral'') sentiment_history))
    \<and> st_average_confidence (calculate_statistics sentiment_history) =
        Some (sum_list (map (\<lambda>i. field_get (sd_confidence i) (1 / 2)) sentiment_history)
                / real (length sentiment_history))
    \<and> (\<exists>d pre c post.
          st_dominant_sentiment (calculate_statistics sentiment_history) = Some d
          \<and> spec_frequency_map
               (map (\<lambda>i. field_get (sd_sentiment i) ''neutral'') sentiment_history) =
              pre @ (d, c) # post
          \<and> (\<forall>kv\<in>set pre. snd kv < c) \<and> (\<forall>kv\<in>set post. snd kv \<le> c))
    \<and> (\<exists>d pre c post.
          st_dominant_emotion (calculate_statistics sentiment_history) = Some d
          \<and> spec_frequency_map
               (map (\<lambda>i. field_get (sd_emotion i) ''neutral'') sentiment_history) =
              pre @ (d, c) # post
          \<and> (\<forall>kv\<in>set pre. snd kv < c) \<and> (\<forall>kv\<in>set post. snd kv \<le> c))
    \<and> calculate_statistics sample_history =
        \<lparr>st_total_messages = Some 3,
         st_sentiment_distribution = Some [(''positive'', 2), (''negative'', 1)],
         st_emotion_distribution = Some [(''happy'', 2), (''sad'', 1)],
         st_average_confidence = Some (7 / 10),
         st_dominant_sentiment = Some ''positive'',
         st_dominant_emotion = Some ''happy''\<rparr>"
proof -
  let ?S = "map (\<lambda>i. field_get (sd_sentiment i) ''neutral'') sentiment_history"
  let ?E = "map (\<lambda>i. field_get (sd_emotion i) ''neutral'') sentiment_history"
  note fields = calculate_statistics_fields [OF assms]
  have "?S \<noteq> []" using assms by simp
  from dominant_first_maximum [OF spec_frequency_map_nonempty [OF this]]
  have ds: "\<exists>d pre c post.
          st_dominant_sentiment (calculate_statistics sentiment_history) = Some d
          \<and> spec_frequency_map ?S = pre @ (d, c) # post
          \<and> (\<forall>kv\<in>set pre. snd kv < c) \<and> (\<forall>kv\<in>set post. snd kv \<le> c)"
    by (simp add: fields)
  have "?E \<noteq> []" using assms by simp
  from dominant_first_maximum [OF spec_frequency_map_nonempty [OF this]]
  have de: "\<exists>d pre c post.
          st_dominant_emotion (calculate_statistics sentiment_history) = Some d
          \<and> spec_frequency_map ?E = pre @ (d, c) # post
          \<and> (\<forall>kv\<in>set pre. snd kv < c) \<and> (\<forall>kv\<in>set post. snd kv \<le> c)"
    by (simp add: fields)
  from ds de sample_statistics show ?thesis
    by (simp add: fields)
qed

theorem calculate_statistics_nonempty_witness:
  "sample_history \<noteq> []
   \<and> st_total_messages (calculate_statistics sample_history) = Some 3
   \<and> st_sentiment_distribution (calculate_statistics sample_history) =
       Some [(''positive'', 2), (''negative'', 1)]
   \<and> st_emotion_distribution (calculate_statistics sample_history) =
       Some [(''happy'', 2), (''sad'', 1)]
   \<and> st_average_confidence (calculate_statistics sample_history) = Some (7 / 10)"
proof -
  have nonempty: "sample_history \<noteq> []"
    by (simp add: sample_history_def)
  have s: "spec_frequency_map (map (\<lambda>i. field_get (sd_sentiment i) ''neutral'') sample_history) =
      [(''positive'', 2), (''negative'', 1)]"
    by (simp add: sample_history_def spec_frequency_map_def first_occurrences_def field_get_def)
  have e: "spec_frequency_map (map (\<lambda>i. field_get (sd_emotion i) ''neutral'') sample_history) =
      [(''happy'', 2), (''sad'', 1)]"
    by (simp add: sample_history_def spec_frequency_map_def first_occurrences_def field_get_def)
  have c: "sum_list (map (\<lambda>i. field_get (sd_confidence i) (1 / 2)) sample_history)
      / real (length sample_history) = 7 / 10"
    by (simp add: sample_history_def field_get_def)
  have n: "int (length sample_history) = 3"
    by (simp add: sample_history_def)
  from calculate_statistics_nonempty [OF nonempty] nonempty s e c n show ?thesis
    by simp
qed

section \<open>Text report\<close>























end
